theory Spec2Isabelle
  imports Complex_Main
begin

section \<open>geoarray: lookup tables of gdalfuncs.py\<close>

text \<open>
  The module gdalfuncs.py holds two dictionaries that translate between the codes of the
  raster backend and the names used by the array layer.  Python dictionaries are modelled
  as association lists read with \<open>map_of\<close>; neither literal repeats a key, so the
  order of the entries does not matter for a lookup.
\<close>

subsection \<open>TYPEMAP\<close>






subsection \<open>COLOR\_DICT and the colour mode of a dataset\<close>

definition COLOR_DICT_items :: "(int \<times> string) list" where
  "COLOR_DICT_items =
    [(1, ''L''), (2, ''P''), (3, ''R''), (4, ''G''), (5, ''B''), (6, ''A''),
     (7, ''H''), (8, ''S''), (9, ''V''), (10, ''C''), (11, ''M''), (12, ''Y''),
     (13, ''K''), (14, ''Y''), (15, ''Cb''), (16, ''Cr'')]"

definition COLOR_DICT :: "int \<rightharpoonup> string" where
  "COLOR_DICT = map_of COLOR_DICT_items"

text \<open>\<^verbatim>\<open>COLOR_DICT.get(color, "L")\<close>: the lookup with a default.\<close>

definition COLOR_DICT_get :: "int \<Rightarrow> string \<Rightarrow> string" where
  "COLOR_DICT_get color dflt = (case COLOR_DICT color of Some tag \<Rightarrow> tag | None \<Rightarrow> dflt)"

text \<open>
  \<^verbatim>\<open>sorted(set(tmp), key=tmp.index)\<close> lists the distinct elements of \<open>tmp\<close> in
  the order of their first occurrence.
\<close>

fun first_seen :: "'a list \<Rightarrow> 'a list \<Rightarrow> 'a list" where
  "first_seen seen [] = []"
| "first_seen seen (x # xs) =
     (if x \<in> set seen then first_seen seen xs else x # first_seen (x # seen) xs)"

text \<open>
  \<^verbatim>\<open>_getColorMode(fobj)\<close>.  The dataset enters as the list of the colour
  interpretation codes of its bands \<open>1 .. RasterCount\<close>, which is all the function
  reads from it.
\<close>

definition getColorMode :: "int list \<Rightarrow> string" where
  "getColorMode colors =
     concat (first_seen [] (map (\<lambda>color. COLOR_DICT_get color ''L'') colors))"

section \<open>Exceptions and the coordinate backend\<close>

text \<open>
  Python exceptions are values; a call that can raise returns \<open>exc + 'a\<close> with
  \<open>Inl\<close> for the exception.  \<open>FloatNonFinite\<close> is not a Python exception: floating
  point numbers are modelled as real numbers, and this outcome marks the runs in which
  numpy would produce an infinity or a NaN (a division by zero), which real arithmetic
  does not have.
\<close>

datatype exc =
    NotImplementedError string
  | AttributeError string
  | RuntimeError string
  | IOError string
  | IndexError
  | TypeError
  | FloatNonFinite

definition bind_exc :: "exc + 'a \<Rightarrow> ('a \<Rightarrow> exc + 'b) \<Rightarrow> exc + 'b" where
  "bind_exc r f = (case r of Inl e \<Rightarrow> Inl e | Inr v \<Rightarrow> f v)"

text \<open>
  The library \<^verbatim>\<open>osr\<close> is not part of the repository.  Its operations are the fields of a
  record that every function of the model takes as its first argument:
  \<open>'srs\<close> is the state of a \<^verbatim>\<open>SpatialReference\<close> object and \<open>'tx\<close> a
  \<^verbatim>\<open>CoordinateTransformation\<close>.  An import on a fresh object is a function from the
  text to the state of the object afterwards; \<open>srs_str\<close> is \<^verbatim>\<open>str(srs)\<close>.
\<close>

record ('srs, 'tx) osr =
  SpatialReference :: "'srs"
  ImportFromProj4 :: "string \<Rightarrow> 'srs"
  ImportFromWkt :: "string \<Rightarrow> 'srs"
  ExportToProj4 :: "'srs \<Rightarrow> string"
  ExportToWkt :: "'srs \<Rightarrow> string"
  srs_str :: "'srs \<Rightarrow> string"
  CoordinateTransformation :: "'srs option \<Rightarrow> 'srs option \<Rightarrow> 'tx"
  TransformPoint :: "'tx \<Rightarrow> real \<Rightarrow> real \<Rightarrow> exc + (real \<times> real \<times> real)"

section \<open>\_Projection\<close>

text \<open>Decimal text of an integer, as \<^verbatim>\<open>"{:}".format(n)\<close> prints it.\<close>

fun str_nat :: "nat \<Rightarrow> string" where
  "str_nat n =
     (if n < 10 then [char_of (48 + n)]
      else str_nat (n div 10) @ [char_of (48 + n mod 10)])"

definition str_int :: "int \<Rightarrow> string" where
  "str_int i = (if i < 0 then CHR ''-'' # str_nat (nat (- i)) else str_nat (nat i))"

text \<open>
  The constructor dispatches on the type of its argument.  A dictionary is an association
  list in the iteration order of \<^verbatim>\<open>arg.items()\<close>; its keys and values are taken to
  be strings already, on which \<^verbatim>\<open>str\<close> is the identity.
\<close>

datatype 'srs proj_arg =
    ArgInt int
  | ArgDict "(string \<times> string) list"
  | ArgStr string
  | ArgProjection 'srs
  | ArgOther

text \<open>\<^verbatim>\<open>sep.join(xs)\<close>\<close>

fun join :: "string \<Rightarrow> string list \<Rightarrow> string" where
  "join sep [] = []"
| "join sep [x] = x"
| "join sep (x # y # zs) = x @ sep @ join sep (y # zs)"

text \<open>
  \<^verbatim>\<open>"+{:}".format(" +".join(["=".join(map(str, pp)) for pp in arg.items()]))\<close>
\<close>

definition proj4_params :: "(string \<times> string) list \<Rightarrow> string" where
  "proj4_params items = ''+'' @ join '' +'' (map (\<lambda>(k, v). join ''='' [k, v]) items)"

text \<open>A \<^verbatim>\<open>_Projection\<close> object is its only attribute, \<^verbatim>\<open>_srs\<close>.\<close>

definition Projection_init :: "('srs, 'tx) osr \<Rightarrow> 'srs proj_arg \<Rightarrow> 'srs" where
  "Projection_init be arg =
     (case arg of
        ArgInt n \<Rightarrow> ImportFromProj4 be (''+init=epsg:'' @ str_int n)
      | ArgDict items \<Rightarrow> ImportFromProj4 be (proj4_params items)
      | ArgStr wkt \<Rightarrow> ImportFromWkt be wkt
      | ArgProjection other \<Rightarrow> ImportFromWkt be (ExportToWkt be other)
      | ArgOther \<Rightarrow> SpatialReference be)"

text \<open>\<^verbatim>\<open>re.split("[+= ]", s)\<close>: the pieces between the separator characters.\<close>

definition is_sep :: "char \<Rightarrow> bool" where
  "is_sep c = (c = CHR ''+'' \<or> c = CHR ''='' \<or> c = CHR '' '')"

fun re_split :: "string \<Rightarrow> string list" where
  "re_split [] = [[]]"
| "re_split (c # cs) =
     (if is_sep c then [] # re_split cs
      else (case re_split cs of [] \<Rightarrow> [[c]] | t # ts \<Rightarrow> (c # t) # ts))"


text \<open>The slices \<^verbatim>\<open>proj[0::2]\<close> and \<^verbatim>\<open>proj[1::2]\<close>.\<close>

fun evens :: "'a list \<Rightarrow> 'a list" where
  "evens [] = []"
| "evens [x] = [x]"
| "evens (x # y # zs) = x # evens zs"

fun odds :: "'a list \<Rightarrow> 'a list" where
  "odds [] = []"
| "odds [x] = []"
| "odds (x # y # zs) = y # odds zs"





definition getWkt :: "('srs, 'tx) osr \<Rightarrow> 'srs \<Rightarrow> string" where
  "getWkt be srs = ExportToWkt be srs"

text \<open>
  \<^verbatim>\<open>getReference\<close> returns the reference when its text is not empty and falls off the
  end of the function otherwise, which returns \<^verbatim>\<open>None\<close>.
\<close>

definition getReference :: "('srs, 'tx) osr \<Rightarrow> 'srs \<Rightarrow> 'srs option" where
  "getReference be srs = (if srs_str be srs \<noteq> [] then Some srs else None)"

section \<open>\_Transformer\<close>

text \<open>A \<^verbatim>\<open>_Transformer\<close> object is its only attribute, \<^verbatim>\<open>_tx\<close>.\<close>

definition Transformer_init :: "('srs, 'tx) osr \<Rightarrow> 'srs \<Rightarrow> 'srs \<Rightarrow> 'tx" where
  "Transformer_init be sproj tproj =
     CoordinateTransformation be (getReference be sproj) (getReference be tproj)"

text \<open>
  \<^verbatim>\<open>__call__(y, x)\<close> hands the point to the backend as \<open>(x, y)\<close>, turns a
  \<^verbatim>\<open>NotImplementedError\<close> into an \<^verbatim>\<open>AttributeError\<close> and lets every other exception
  pass.
\<close>

definition Transformer_call ::
  "('srs, 'tx) osr \<Rightarrow> 'tx \<Rightarrow> real \<Rightarrow> real \<Rightarrow> exc + (real \<times> real)" where
  "Transformer_call be tx y x =
     (case TransformPoint be tx x y of
        Inl (NotImplementedError msg) \<Rightarrow> Inl (AttributeError ''Projections not correct or given!'')
      | Inl e \<Rightarrow> Inl e
      | Inr (xt, yt, zt) \<Rightarrow> Inr (yt, xt))"

section \<open>\_warp: the footprint of a grid in another projection\<close>

text \<open>
  The class \<^verbatim>\<open>GeoArray\<close> lives in a module that is not among the sources.  The
  function reads the attributes below from it; \<open>bbox\<close> is the dictionary with the keys
  \<open>xmin\<close>, \<open>xmax\<close>, \<open>ymin\<close> and \<open>ymax\<close>.
\<close>

record ('srs, 'v, 'd) geoarray =
  bbox_xmin :: real
  bbox_xmax :: real
  bbox_ymin :: real
  bbox_ymax :: real
  nbands :: nat
  nrows :: nat
  ncols :: nat
  fill_value :: 'v
  dtype :: 'd
  proj :: 'srs

text \<open>The dictionary that \<^verbatim>\<open>_warp\<close> returns.\<close>

record ('srs, 'v, 'd) warp_spec =
  ws_shape :: "nat \<times> int \<times> int"
  ws_value :: 'v
  ws_fill_value :: 'v
  ws_dtype :: 'd
  ws_yorigin :: real
  ws_xorigin :: real
  ws_origin :: string
  ws_cellsize :: "real \<times> real"
  ws_proj :: "'srs proj_arg"

text \<open>
  Python 2 rounds halves away from zero and returns a float; \<^verbatim>\<open>int\<close> of a float cuts
  towards zero.
\<close>

definition py_round :: "real \<Rightarrow> real" where
  "py_round x = (if 0 \<le> x then of_int \<lfloor>x + 1 / 2\<rfloor> else of_int \<lceil>x - 1 / 2\<rceil>)"

definition py_int :: "real \<Rightarrow> int" where
  "py_int x = (if 0 \<le> x then \<lfloor>x\<rfloor> else \<lceil>x\<rceil>)"

text \<open>\<^verbatim>\<open>max(a, b, c, d)\<close> and \<^verbatim>\<open>min(a, b, c, d)\<close>\<close>

definition max4 :: "real \<Rightarrow> real \<Rightarrow> real \<Rightarrow> real \<Rightarrow> real" where
  "max4 a b c d = max (max (max a b) c) d"

definition min4 :: "real \<Rightarrow> real \<Rightarrow> real \<Rightarrow> real \<Rightarrow> real" where
  "min4 a b c d = min (min (min a b) c) d"

text \<open>The number of cells along one axis, lines 212 and 213.\<close>

definition ncells :: "real \<Rightarrow> real \<Rightarrow> real \<Rightarrow> int" where
  "ncells hi lo tcellsize = py_int \<bar>py_round ((hi - lo) / tcellsize)\<bar>"

definition warp ::
  "('srs, 'tx) osr \<Rightarrow> ('srs, 'v, 'd) geoarray \<Rightarrow> 'srs proj_arg
     \<Rightarrow> exc + ('srs, 'v, 'd) warp_spec" where
  "warp be grid p =
     (let trans = Transformer_call be (Transformer_init be (proj grid) (Projection_init be p))
      in
      bind_exc (trans (bbox_ymax grid) (bbox_xmin grid)) (\<lambda>(uly, ulx).
      bind_exc (trans (bbox_ymin grid) (bbox_xmax grid)) (\<lambda>(lry, lrx).
      bind_exc (trans (bbox_ymax grid) (bbox_xmax grid)) (\<lambda>(ury, urx).
      bind_exc (trans (bbox_ymin grid) (bbox_xmin grid)) (\<lambda>(lly, llx).
        let sdiag = sqrt (real ((nrows grid)\<^sup>2 + (ncols grid)\<^sup>2));
            tdiag = sqrt ((lly - ury)\<^sup>2 + (llx - urx)\<^sup>2);
            tcellsize = tdiag / sdiag
        in
        if sdiag = 0 \<or> tcellsize = 0 then Inl FloatNonFinite
        else
          let ncols' = ncells (max urx lrx) (min ulx llx) tcellsize;
              nrows' = ncells (max ury lry) (min uly lly) tcellsize
          in Inr \<lparr> ws_shape = (nbands grid, nrows', ncols'),
                   ws_value = fill_value grid,
                   ws_fill_value = fill_value grid,
                   ws_dtype = dtype grid,
                   ws_yorigin = max4 uly ury lly lry,
                   ws_xorigin = min4 ulx urx llx lrx,
                   ws_origin = ''ul'',
                   ws_cellsize = (- tcellsize, tcellsize),
                   ws_proj = p \<rparr>)))))"

section \<open>geogridbase.py: grids that load their data on first access\<close>

subsection \<open>Arrays\<close>

text \<open>
  A numpy array is its shape and its cells in row-major order.  The model keeps the
  operations that the grid classes use: an elementwise conversion, the comparison with a
  scalar, \<^verbatim>\<open>np.squeeze(a, 0)\<close> and the assignment through a boolean mask.
\<close>

record 'a ndarray =
  shape :: "nat list"
  cells :: "'a list"

definition astype :: "('a \<Rightarrow> 'b) \<Rightarrow> 'a ndarray \<Rightarrow> 'b ndarray" where
  "astype conv a = \<lparr> shape = shape a, cells = map conv (cells a) \<rparr>"

text \<open>\<^verbatim>\<open>a == x\<close>\<close>

definition eq_mask :: "'a ndarray \<Rightarrow> 'a \<Rightarrow> bool ndarray" where
  "eq_mask a x = astype (\<lambda>c. c = x) a"

text \<open>
  \<^verbatim>\<open>_squeeze\<close> on loaded data: \<^verbatim>\<open>np.squeeze(self._data, 0)\<close> drops the first axis
  when its length is one and raises \<^verbatim>\<open>ValueError\<close> otherwise, which the method
  catches to return the data as they are.
\<close>

definition squeeze :: "'a ndarray \<Rightarrow> 'a ndarray" where
  "squeeze a =
     (case shape a of
        [] \<Rightarrow> a
      | n # rest \<Rightarrow> if n = 1 then a\<lparr>shape := rest\<rparr> else a)"

text \<open>
  \<^verbatim>\<open>d[m] = v\<close> for a boolean array \<open>m\<close> and a scalar \<open>v\<close>.  The shape of the
  mask has to be the leading part of the shape of the array, or numpy raises
  \<^verbatim>\<open>IndexError\<close> (boolean index did not match indexed array).  Each element of the
  mask then stands for the block of cells below it, which is a single cell when the two
  shapes are equal.
\<close>

definition mask_assign :: "'a ndarray \<Rightarrow> bool ndarray \<Rightarrow> 'a \<Rightarrow> exc + 'a ndarray" where
  "mask_assign d m v =
     (if take (length (shape m)) (shape d) = shape m
      then
        let block = prod_list (drop (length (shape m)) (shape d));
            flags = concat (map (replicate block) (cells m))
        in Inr (d\<lparr>cells := map (\<lambda>(f, c). if f then v else c) (zip flags (cells d))\<rparr>)
      else Inl IndexError)"

subsection \<open>\_GeoGridBase\<close>

text \<open>
  The attributes of a grid.  \<open>gg_data\<close> is \<^verbatim>\<open>_data\<close>, \<open>None\<close> until the data
  are loaded; the test \<^verbatim>\<open>self._data == None\<close> is read as the test for that state.
  \<open>gg_dtype\<close> is \<^verbatim>\<open>_dtype\<close>, a numpy scalar type, as the conversion that
  calling it performs.  \<open>gg_source\<close> is what \<^verbatim>\<open>_readData()\<close> of the subclass
  returns; for a \<^verbatim>\<open>_GdalGrid\<close> that is \<^verbatim>\<open>fobj.ReadAsArray()\<close>.  A dictionary of
  projection parameters is the list of its items.
\<close>

record 'a geogrid =
  gg_data :: "'a ndarray option"
  gg_nodata_value :: 'a
  gg_dtype :: "'a \<Rightarrow> 'a"
  gg_nbands :: nat
  gg_nrows :: nat
  gg_ncols :: nat
  gg_xllcorner :: real
  gg_yllcorner :: real
  gg_cellsize :: real
  gg_proj_params :: "(string \<times> string) list"
  gg_source :: "'a ndarray"

text \<open>
  \<^verbatim>\<open>self[:]\<close>, that is \<^verbatim>\<open>__getitem__(slice(None))\<close>: load the data if need be, then
  take the whole of the squeezed data.  An array without an axis cannot be sliced.  The
  grid is returned too, since the call may have loaded it.
\<close>

definition getitem_all :: "'a geogrid \<Rightarrow> exc + ('a geogrid \<times> 'a ndarray)" where
  "getitem_all g =
     (let d = (case gg_data g of
                 None \<Rightarrow> astype (gg_dtype g) (gg_source g)
               | Some d \<Rightarrow> d);
          view = squeeze d
      in if shape view = [] then Inl IndexError
         else Inr (g\<lparr>gg_data := Some d\<rparr>, view))"

text \<open>
  \<^verbatim>\<open>self[mask] = value\<close>, that is \<^verbatim>\<open>__setitem__(mask, value)\<close>: load the data if
  need be, then assign into \<^verbatim>\<open>self._data\<close>, the data before any squeezing.
\<close>

definition setitem_mask :: "'a geogrid \<Rightarrow> bool ndarray \<Rightarrow> 'a \<Rightarrow> exc + 'a geogrid" where
  "setitem_mask g m v =
     bind_exc (case gg_data g of
                 None \<Rightarrow> bind_exc (getitem_all g) (\<lambda>(g', view). Inr g')
               | Some d \<Rightarrow> Inr g) (\<lambda>g'.
       case gg_data g' of
         None \<Rightarrow> Inl TypeError
       | Some d \<Rightarrow> bind_exc (mask_assign d m v) (\<lambda>d'. Inr (g'\<lparr>gg_data := Some d'\<rparr>)))"

text \<open>\<^verbatim>\<open>_setNodataValue(value)\<close>, the setter of the property \<^verbatim>\<open>nodata_value\<close>.\<close>

definition setNodataValue :: "'a geogrid \<Rightarrow> 'a \<Rightarrow> exc + 'a geogrid" where
  "setNodataValue g v =
     bind_exc (getitem_all g) (\<lambda>(g1, view).
     bind_exc (setitem_mask g1 (eq_mask view (gg_nodata_value g1)) (gg_dtype g1 v)) (\<lambda>g2.
       Inr (g2\<lparr>gg_nodata_value := gg_dtype g2 v\<rparr>)))"

text \<open>\<^verbatim>\<open>__consistentTypes\<close>: convert the nodata value and, when loaded, the data.\<close>

definition consistentTypes :: "'a geogrid \<Rightarrow> exc + 'a geogrid" where
  "consistentTypes g =
     (let g1 = g\<lparr>gg_nodata_value := gg_dtype g (gg_nodata_value g)\<rparr>
      in case gg_data g1 of
           None \<Rightarrow> Inr g1
         | Some d \<Rightarrow>
             bind_exc (getitem_all g1) (\<lambda>(g2, view).
               Inr (g2\<lparr>gg_data := Some (astype (gg_dtype g2) view)\<rparr>)))"

text \<open>
  \<^verbatim>\<open>_GeoGridBase.__init__\<close>.  The argument \<open>dtype\<close> is the name of a numeric kind;
  \<open>np_type\<close> stands for \<^verbatim>\<open>np.dtype(name).type\<close>, which raises
  \<^verbatim>\<open>TypeError\<close> for a name it does not know.  Assigning \<^verbatim>\<open>self.dtype\<close> runs
  \<^verbatim>\<open>__consistentTypes\<close>, and the constructor runs it once more at its end.
\<close>

definition GeoGridBase_init ::
  "(string \<Rightarrow> ('a \<Rightarrow> 'a) option) \<Rightarrow> nat \<Rightarrow> nat \<Rightarrow> nat \<Rightarrow> real \<Rightarrow> real \<Rightarrow> real
     \<Rightarrow> string \<Rightarrow> 'a ndarray option \<Rightarrow> 'a \<Rightarrow> (string \<times> string) list \<Rightarrow> 'a ndarray
     \<Rightarrow> exc + 'a geogrid" where
  "GeoGridBase_init np_type nbands' nrows' ncols' xllcorner yllcorner cellsize dtype' data
       nodata_value proj_params source =
     (case np_type dtype' of
        None \<Rightarrow> Inl TypeError
      | Some ty \<Rightarrow>
          bind_exc (consistentTypes
            \<lparr> gg_data = data, gg_nodata_value = nodata_value, gg_dtype = ty,
              gg_nbands = (if nbands' \<noteq> 0 then nbands' else 1),
              gg_nrows = nrows', gg_ncols = ncols',
              gg_xllcorner = xllcorner, gg_yllcorner = yllcorner, gg_cellsize = cellsize,
              gg_proj_params = proj_params, gg_source = source \<rparr>)
            consistentTypes)"

subsection \<open>\_GdalGrid\<close>

text \<open>
  What the constructor reads from an opened dataset: the sizes, the six numbers of the
  geotransform, the nodata value and the type name of band 1, the Proj4 text of the
  projection and the array of all bands.  \<^verbatim>\<open>gdal.Open\<close> is a function from file names
  to datasets, \<open>None\<close> for a file that cannot be opened.
\<close>

record 'a dataset =
  RasterCount :: nat
  RasterYSize :: nat
  RasterXSize :: nat
  GeoTransform :: "real \<times> real \<times> real \<times> real \<times> real \<times> real"
  NoDataValue :: 'a
  DataTypeName :: string
  Proj4 :: string
  ReadAsArray :: "'a ndarray"

definition gdal_open :: "(string \<Rightarrow> 'a dataset option) \<Rightarrow> string \<Rightarrow> exc + 'a dataset" where
  "gdal_open fs fname =
     (case fs fname of
        Some fobj \<Rightarrow> Inr fobj
      | None \<Rightarrow> Inl (IOError ''Could not open file''))"

definition yllcorner_of :: "real \<Rightarrow> real \<Rightarrow> nat \<Rightarrow> real" where
  "yllcorner_of yulcorner cellsize nrows' =
     (if cellsize < 0 then yulcorner + cellsize * real nrows' else yulcorner)"

definition cellsize_of :: "real \<Rightarrow> real \<Rightarrow> exc + real" where
  "cellsize_of x_cellsize y_cellsize =
     (if \<bar>x_cellsize\<bar> = \<bar>y_cellsize\<bar> then Inr \<bar>x_cellsize\<bar>
      else Inl (NotImplementedError
             ''Diverging cellsizes in x and y direction are not allowed yet!''))"

definition proj4Params :: "'a dataset \<Rightarrow> (string \<times> string) list" where
  "proj4Params fobj =
     (let proj_params = filter (\<lambda>x. x \<noteq> []) (re_split (Proj4 fobj))
      in zip (evens proj_params) (odds proj_params))"

text \<open>
  \<^verbatim>\<open>_GdalGrid.__init__(fname, proj_params, dtype)\<close>.  The keyword arguments of the call
  to the base constructor are evaluated in the order in which they are written, so the
  check of the cellsizes comes before the base constructor runs.  An absent or empty
  \<open>proj_params\<close> is the empty list, an absent or empty \<open>dtype\<close> the empty string.
\<close>

definition GdalGrid_init ::
  "(string \<Rightarrow> 'a dataset option) \<Rightarrow> (string \<Rightarrow> ('a \<Rightarrow> 'a) option)
     \<Rightarrow> string \<Rightarrow> (string \<times> string) list \<Rightarrow> string \<Rightarrow> exc + 'a geogrid" where
  "GdalGrid_init fs np_type fname proj_params dtype' =
     bind_exc (gdal_open fs fname) (\<lambda>fobj.
       case GeoTransform fobj of (t0, t1, t2, t3, t4, t5) \<Rightarrow>
         let pparams = proj4Params fobj;
             yll = yllcorner_of t3 t5 (RasterYSize fobj)
         in bind_exc (cellsize_of t1 t5) (\<lambda>cs.
              GeoGridBase_init np_type
                (RasterCount fobj) (RasterYSize fobj) (RasterXSize fobj)
                t0 yll cs
                (if dtype' \<noteq> [] then dtype' else DataTypeName fobj)
                None
                (NoDataValue fobj)
                (if pparams \<noteq> [] then pparams
                 else if proj_params \<noteq> [] then proj_params else [])
                (ReadAsArray fobj)))"

section \<open>geoarray.py: the initialiser array\<close>

text \<open>
  The keyword arguments of \<^verbatim>\<open>array\<close> can be any Python value, and the function tests
  their truth value.  \<open>PObject n t\<close> is an object that the model does not look into,
  with an identity \<open>n\<close> and the truth value \<open>t\<close> that Python gives it, such as a
  numpy dtype or a projection.
\<close>

datatype pyval =
    PNone
  | PBool bool
  | PInt int
  | PFloat real
  | PStr string
  | PTuple "pyval list"
  | PDict "(pyval \<times> pyval) list"
  | PObject nat bool

fun truthy :: "pyval \<Rightarrow> bool" where
  "truthy PNone = False"
| "truthy (PBool b) = b"
| "truthy (PInt i) = (i \<noteq> 0)"
| "truthy (PFloat r) = (r \<noteq> 0)"
| "truthy (PStr s) = (s \<noteq> [])"
| "truthy (PTuple xs) = (xs \<noteq> [])"
| "truthy (PDict kvs) = (kvs \<noteq> [])"
| "truthy (PObject n t) = t"

text \<open>\<^verbatim>\<open>a or b\<close>\<close>

definition py_or :: "pyval \<Rightarrow> pyval \<Rightarrow> pyval" where
  "py_or a b = (if truthy a then a else b)"

text \<open>
  The value of a number, and \<^verbatim>\<open>a == b\<close>: numbers are equal when their values are
  (\<^verbatim>\<open>0 == 0.0\<close>), other values when they are the same.
\<close>

fun py_num :: "pyval \<Rightarrow> real option" where
  "py_num (PBool b) = Some (if b then 1 else 0)"
| "py_num (PInt i) = Some (of_int i)"
| "py_num (PFloat r) = Some r"
| "py_num v = None"

definition py_eq :: "pyval \<Rightarrow> pyval \<Rightarrow> bool" where
  "py_eq a b =
     (case (py_num a, py_num b) of
        (Some x, Some y) \<Rightarrow> x = y
      | _ \<Rightarrow> a = b)"

text \<open>
  The eight georeferencing keywords.  The record serves three times: for the keyword
  arguments of \<^verbatim>\<open>array\<close>, for the attributes of the same names that the function
  reads from a \<^verbatim>\<open>GeoArray\<close>, and for what it passes on.
\<close>

record geo_keywords =
  kw_dtype :: pyval
  kw_yorigin :: pyval
  kw_xorigin :: pyval
  kw_origin :: pyval
  kw_fill_value :: pyval
  kw_cellsize :: pyval
  kw_proj :: pyval
  kw_mode :: pyval

text \<open>The defaults of the signature: every keyword is \<^verbatim>\<open>None\<close>.\<close>

definition no_keywords :: geo_keywords where
  "no_keywords =
     \<lparr> kw_dtype = PNone, kw_yorigin = PNone, kw_xorigin = PNone, kw_origin = PNone,
       kw_fill_value = PNone, kw_cellsize = PNone, kw_proj = PNone, kw_mode = PNone \<rparr>"

text \<open>
  The argument \<open>data\<close> is a \<^verbatim>\<open>GeoArray\<close>, of which the function reads the eight
  attributes, or something else.
\<close>

datatype array_data = IsGeoArray geo_keywords | NotGeoArray

text \<open>
  The class \<^verbatim>\<open>GeoArray\<close> is imported from a module that is not among the sources, so
  the result of \<^verbatim>\<open>array\<close> is the call it ends with: \<open>kw_dtype\<close> is the dtype handed
  to \<^verbatim>\<open>np.array\<close> for the data, the other fields are the keyword arguments of
  \<^verbatim>\<open>GeoArray(...)\<close>.
\<close>

definition array :: "array_data \<Rightarrow> geo_keywords \<Rightarrow> geo_keywords" where
  "array data kw =
     (let kw1 = (case data of
                   IsGeoArray g \<Rightarrow>
                     \<lparr> kw_dtype = py_or (kw_dtype kw) (kw_dtype g),
                       kw_yorigin = py_or (kw_yorigin kw) (kw_yorigin g),
                       kw_xorigin = py_or (kw_xorigin kw) (kw_xorigin g),
                       kw_origin = py_or (kw_origin kw) (kw_origin g),
                       kw_fill_value = py_or (kw_fill_value kw) (kw_fill_value g),
                       kw_cellsize = py_or (kw_cellsize kw) (kw_cellsize g),
                       kw_proj = py_or (kw_proj kw) (kw_proj g),
                       kw_mode = py_or (kw_mode kw) (kw_mode g) \<rparr>
                 | NotGeoArray \<Rightarrow> kw)
      in \<lparr> kw_dtype = kw_dtype kw1,
           kw_yorigin = py_or (kw_yorigin kw1) (PInt 0),
           kw_xorigin = py_or (kw_xorigin kw1) (PInt 0),
           kw_origin = py_or (kw_origin kw1) (PStr ''ul''),
           kw_fill_value = kw_fill_value kw1,
           kw_cellsize = py_or (kw_cellsize kw1) (PTuple [PInt 1, PInt 1]),
           kw_proj = kw_proj kw1,
           kw_mode = kw_mode kw1 \<rparr>)"

text \<open>
  A \<^verbatim>\<open>GeoArray\<close> for examples: origin \<open>(10, 0)\<close> at the upper left corner, unit cells,
  no projection, a dtype object (which numpy makes false in a test).
\<close>

definition example_geoarray :: geo_keywords where
  "example_geoarray =
     \<lparr> kw_dtype = PObject 1 False, kw_yorigin = PFloat 10, kw_xorigin = PFloat 0,
       kw_origin = PStr ''ul'', kw_fill_value = PFloat (-9999),
       kw_cellsize = PTuple [PFloat (-1), PFloat 1], kw_proj = PDict [],
       kw_mode = PStr ''L'' \<rparr>"

section \<open>A backend for examples\<close>

text \<open>
  A backend to run the model on: the state of a reference is its text, both imports and
  both exports are the identity, and the transformation between two set references is the
  linear map with the matrix \<open>((a, b), (c, d))\<close> on \<open>(x, y)\<close>.  A transformation
  built from an unset reference has no handle, and the binding raises
  \<^verbatim>\<open>NotImplementedError\<close> when a point is given to it.  With the matrix
  \<open>((1, 0), (0, 1))\<close> it transforms every point to itself.
\<close>

definition linear_osr :: "real \<Rightarrow> real \<Rightarrow> real \<Rightarrow> real \<Rightarrow> (string, bool) osr" where
  "linear_osr a b c d =
     \<lparr> SpatialReference = [],
       ImportFromProj4 = (\<lambda>s. s),
       ImportFromWkt = (\<lambda>s. s),
       ExportToProj4 = (\<lambda>s. s),
       ExportToWkt = (\<lambda>s. s),
       srs_str = (\<lambda>s. s),
       CoordinateTransformation = (\<lambda>s t. s \<noteq> None \<and> t \<noteq> None),
       TransformPoint = (\<lambda>tx x y.
          if tx then Inr (a * x + b * y, c * x + d * y, 0)
          else Inl (NotImplementedError ''Wrong number or type of arguments'')) \<rparr>"

text \<open>
  A grid of three rows and four columns of unit cells, lower left corner at the origin,
  one band, in a projection called \<open>src\<close>.
\<close>

definition grid34 :: "(string, int, string) geoarray" where
  "grid34 =
     \<lparr> bbox_xmin = 0, bbox_xmax = 4, bbox_ymin = 0, bbox_ymax = 3,
       nbands = 1, nrows = 3, ncols = 4,
       fill_value = -9999, dtype = ''float64'', proj = ''src'' \<rparr>"

text \<open>
  The same backend, except that a transformation with a handle fails on every point with
  the \<^verbatim>\<open>RuntimeError\<close> that the backend raises for a point it cannot transform.
\<close>

definition failing_osr :: "(string, bool) osr" where
  "failing_osr =
     (linear_osr 1 0 0 1)
       \<lparr> TransformPoint := (\<lambda>tx x y.
            if tx then Inl (RuntimeError ''tolerance condition error'')
            else Inl (NotImplementedError ''Wrong number or type of arguments'')) \<rparr>"

section \<open>Files for examples\<close>

text \<open>
  A file system with one raster file, \<open>a.tif\<close>, and a numpy that knows the numeric
  kind \<open>Int32\<close>, whose conversion leaves an integer as it is.
\<close>

definition one_file :: "'a dataset \<Rightarrow> string \<Rightarrow> 'a dataset option" where
  "one_file fobj fname = (if fname = ''a.tif'' then Some fobj else None)"

definition int_types :: "string \<Rightarrow> (int \<Rightarrow> int) option" where
  "int_types name = (if name = ''Int32'' then Some (\<lambda>i. i) else None)"

text \<open>
  A raster of one band with one row and two columns of unit cells; the first cell holds
  the nodata value 0, the second holds 5.
\<close>

definition row_file :: "int dataset" where
  "row_file =
     \<lparr> RasterCount = 1, RasterYSize = 1, RasterXSize = 2,
       GeoTransform = (0, 1, 0, 1, 0, -1),
       NoDataValue = 0, DataTypeName = ''Int32'', Proj4 = ''+proj=longlat'',
       ReadAsArray = \<lparr> shape = [1, 2], cells = [0, 5] \<rparr> \<rparr>"

text \<open>A raster of two rows and two columns whose cells are 2 wide and 1 high.\<close>

definition wide_file :: "int dataset" where
  "wide_file =
     \<lparr> RasterCount = 1, RasterYSize = 2, RasterXSize = 2,
       GeoTransform = (0, 2, 0, 2, 0, -1),
       NoDataValue = 0, DataTypeName = ''Int32'', Proj4 = ''+proj=longlat'',
       ReadAsArray = \<lparr> shape = [2, 2], cells = [0, 5, 7, 0] \<rparr> \<rparr>"

text \<open>The same raster with square cells.\<close>

definition square_file :: "int dataset" where
  "square_file = wide_file \<lparr> GeoTransform := (0, 1, 0, 2, 0, -1) \<rparr>"

section \<open>Properties of the tables\<close>








lemma COLOR_DICT_dom: "dom COLOR_DICT = {1..16}"
proof -
  have "dom COLOR_DICT = fst ` set COLOR_DICT_items"
    by (simp add: COLOR_DICT_def dom_map_of_conv_image_fst)
  also have "\<dots> = {1..16}"
    unfolding COLOR_DICT_items_def by (simp add: set_eq_iff) presburger
  finally show ?thesis .
qed

text \<open>
  Claim C10.  A colour interpretation code outside the sixteen keys of
  \<^verbatim>\<open>COLOR_DICT\<close> gets the tag \<open>L\<close>: the lookup has a default and cannot fail, and a
  dataset with one such band has mode \<open>L\<close>.  The keys are the codes 1 to 16; the codes 12
  and 14 both carry the tag \<open>Y\<close>, so the table is not injective.
\<close>

theorem unknown_color_defaults_to_L:
  "(color \<notin> dom COLOR_DICT \<longrightarrow>
       COLOR_DICT_get color ''L'' = ''L'' \<and> getColorMode [color] = ''L'')
   \<and> dom COLOR_DICT = {1..16}
   \<and> COLOR_DICT 12 = Some ''Y'' \<and> COLOR_DICT 14 = Some ''Y''
   \<and> \<not> inj_on COLOR_DICT (dom COLOR_DICT)"
proof -
  have a: "color \<notin> dom COLOR_DICT \<longrightarrow>
       COLOR_DICT_get color ''L'' = ''L'' \<and> getColorMode [color] = ''L''"
    by (auto simp: COLOR_DICT_get_def getColorMode_def domIff)
  have y: "COLOR_DICT 12 = Some ''Y''" "COLOR_DICT 14 = Some ''Y''"
    by (simp_all add: COLOR_DICT_def COLOR_DICT_items_def)
  have d: "(12::int) \<in> dom COLOR_DICT" "(14::int) \<in> dom COLOR_DICT"
    using y by (auto simp: domIff)
  have n: "\<not> inj_on COLOR_DICT (dom COLOR_DICT)"
  proof
    assume "inj_on COLOR_DICT (dom COLOR_DICT)"
    from inj_onD [OF this _ d] y show False by simp
  qed
  from a y n COLOR_DICT_dom show ?thesis by blast
qed

theorem unknown_color_defaults_to_L_witness:
  "(17::int) \<notin> dom COLOR_DICT \<and> COLOR_DICT_get 17 ''L'' = ''L''
   \<and> getColorMode [17] = ''L'' \<and> getColorMode [3, 4, 99, 5] = ''RGLB''"
proof -
  have a: "(17::int) \<notin> dom COLOR_DICT" by (simp add: COLOR_DICT_dom)
  have b: "getColorMode [3, 4, 99, 5] = ''RGLB''"
    by (simp add: getColorMode_def COLOR_DICT_get_def COLOR_DICT_def COLOR_DICT_items_def)
  from unknown_color_defaults_to_L [of 17] a b show ?thesis by blast
qed

section \<open>Properties of \_warp\<close>

lemma bind_exc_simps [simp]:
  "bind_exc (Inl e) f = Inl e"
  "bind_exc (Inr v) f = f v"
  by (simp_all add: bind_exc_def)

text \<open>
  When the four corners transform without an exception, the grid has a cell and the
  transformed diagonal has a length, \<^verbatim>\<open>_warp\<close> returns this dictionary.
\<close>

lemma warp_eval:
  fixes be :: "('srs, 'tx) osr" and grid :: "('srs, 'v, 'd) geoarray" and p :: "'srs proj_arg"
    and lly ury llx urx :: real
  defines "tr \<equiv> Transformer_call be (Transformer_init be (proj grid) (Projection_init be p))"
  defines "c \<equiv> sqrt ((lly - ury)\<^sup>2 + (llx - urx)\<^sup>2)
                 / sqrt (real ((nrows grid)\<^sup>2 + (ncols grid)\<^sup>2))"
  assumes ul: "tr (bbox_ymax grid) (bbox_xmin grid) = Inr (uly, ulx)"
      and lr: "tr (bbox_ymin grid) (bbox_xmax grid) = Inr (lry, lrx)"
      and ur: "tr (bbox_ymax grid) (bbox_xmax grid) = Inr (ury, urx)"
      and ll: "tr (bbox_ymin grid) (bbox_xmin grid) = Inr (lly, llx)"
      and cells: "nrows grid \<noteq> 0 \<or> ncols grid \<noteq> 0"
      and diag: "(lly, llx) \<noteq> (ury, urx)"
  shows "warp be grid p =
     Inr \<lparr> ws_shape = (nbands grid,
               ncells (max ury lry) (min uly lly) c,
               ncells (max urx lrx) (min ulx llx) c),
            ws_value = fill_value grid,
            ws_fill_value = fill_value grid,
            ws_dtype = dtype grid,
            ws_yorigin = max4 uly ury lly lry,
            ws_xorigin = min4 ulx urx llx lrx,
            ws_origin = ''ul'',
            ws_cellsize = (- c, c),
            ws_proj = p \<rparr>"
proof -
  have s: "sqrt (real ((nrows grid)\<^sup>2 + (ncols grid)\<^sup>2)) \<noteq> 0"
    using cells by auto
  have "(lly - ury)\<^sup>2 + (llx - urx)\<^sup>2 \<noteq> 0"
    using diag by (auto simp: sum_power2_eq_zero_iff)
  then have t: "sqrt ((lly - ury)\<^sup>2 + (llx - urx)\<^sup>2) \<noteq> 0"
    by simp
  show ?thesis
    unfolding warp_def Let_def c_def
    using ul lr ur ll s t unfolding tr_def by simp
qed



text \<open>What the transformer of the example backend does to a point \<open>(y, x)\<close>.\<close>

lemma linear_osr_call:
  "Transformer_call (linear_osr a b c d)
     (Transformer_init (linear_osr a b c d) ''src''
        (Projection_init (linear_osr a b c d) (ArgStr ''dst''))) y x
   = Inr (c * x + d * y, a * x + b * y)"
  by (simp add: Transformer_call_def Transformer_init_def Projection_init_def getReference_def
      linear_osr_def)

lemma sqrt_25: "sqrt 25 = 5"
  by (rule real_sqrt_unique) simp_all

lemma sqrt_625: "sqrt 625 = 25"
  by (rule real_sqrt_unique) simp_all

text \<open>Rounding commutes with the absolute value, so the order of the two is immaterial.\<close>

lemma py_round_abs: "\<bar>py_round x\<bar> = py_round \<bar>x\<bar>"
proof (cases "0 \<le> x")
  case True
  then have "0 \<le> \<lfloor>x + 1 / 2\<rfloor>" by simp
  with True show ?thesis by (simp add: py_round_def)
next
  case False
  then have "\<lceil>x - 1 / 2\<rceil> \<le> 0" by (simp add: ceiling_le_iff)
  moreover have "- \<lceil>x - 1 / 2\<rceil> = \<lfloor>- x + 1 / 2\<rfloor>" by (simp add: ceiling_def)
  ultimately show ?thesis using False by (simp add: py_round_def)
qed

text \<open>
  Where the transformed right-hand corners lie to the right of the left-hand ones, the
  column count of line 212 is the rounded extent of all four corners over the cellsize.
\<close>

lemma ncells_oriented:
  assumes "0 < c" "max ulx llx \<le> max urx lrx" "min ulx llx \<le> min urx lrx"
  shows "ncells (max urx lrx) (min ulx llx) c
       = py_int (py_round (\<bar>Max {ulx, urx, llx, lrx} - Min {ulx, urx, llx, lrx}\<bar> / c))"
proof -
  have "Max {ulx, urx, llx, lrx} = max ulx (max urx (max llx lrx))" by simp
  also have "\<dots> = max urx lrx" using assms(2) by arith
  finally have a: "Max {ulx, urx, llx, lrx} = max urx lrx" .
  have "Min {ulx, urx, llx, lrx} = min ulx (min urx (min llx lrx))" by simp
  also have "\<dots> = min ulx llx" using assms(3) by arith
  finally have b: "Min {ulx, urx, llx, lrx} = min ulx llx" .
  have "min ulx llx \<le> max urx lrx" using assms by arith
  moreover have "\<bar>c\<bar> = c" using assms(1) by simp
  ultimately have "\<bar>(max urx lrx - min ulx llx) / c\<bar> = \<bar>max urx lrx - min ulx llx\<bar> / c"
    by (simp only: abs_divide)
  then show ?thesis
    unfolding ncells_def a b py_round_abs by (simp only:)
qed

text \<open>
  Claim C1, at a rotated footprint.  The example backend turns the plane by about 127
  degrees and scales it by 5.  The corners of the 3 by 4 grid go to
  \<open>ul = (-9, -12)\<close>, \<open>lr = (16, -12)\<close>, \<open>ur = (7, -24)\<close> and \<open>ll = (0, 0)\<close>
  (each \<open>(y, x)\<close>), the cellsize is 5, and the four x-coordinates span 24, which is 5
  columns after rounding.  \<^verbatim>\<open>_warp\<close> returns a shape with 0 columns: line 212 takes
  the larger x of the two right-hand corners and the smaller x of the two left-hand
  corners, both \<open>-12\<close> here, while lines 220 and 221 take the extremes of all four.
\<close>

theorem warp_rotated_footprint_has_no_columns:
  "Transformer_call (linear_osr (-3) (-4) 4 (-3))
     (Transformer_init (linear_osr (-3) (-4) 4 (-3)) (proj grid34)
        (Projection_init (linear_osr (-3) (-4) 4 (-3)) (ArgStr ''dst'')))
     = (\<lambda>y x. Inr (4 * x - 3 * y, - 3 * x - 4 * y))
   \<and> warp (linear_osr (-3) (-4) 4 (-3)) grid34 (ArgStr ''dst'') =
       Inr \<lparr> ws_shape = (1, 5, 0), ws_value = -9999, ws_fill_value = -9999,
             ws_dtype = ''float64'', ws_yorigin = 16, ws_xorigin = -24, ws_origin = ''ul'',
             ws_cellsize = (-5, 5), ws_proj = ArgStr ''dst'' \<rparr>
   \<and> py_int (py_round (\<bar>Max {-12, -24, 0, -12} - Min {-12, -24, 0, -12 :: real}\<bar> / 5)) = 5"
proof -
  have g: "proj grid34 = ''src''" by (simp add: grid34_def)
  have a: "Transformer_call (linear_osr (-3) (-4) 4 (-3))
     (Transformer_init (linear_osr (-3) (-4) 4 (-3)) (proj grid34)
        (Projection_init (linear_osr (-3) (-4) 4 (-3)) (ArgStr ''dst'')))
     = (\<lambda>y x. Inr (4 * x - 3 * y, - 3 * x - 4 * y))"
    unfolding g by (rule ext, rule ext) (simp add: linear_osr_call)
  have b: "warp (linear_osr (-3) (-4) 4 (-3)) grid34 (ArgStr ''dst'') =
       Inr \<lparr> ws_shape = (1, 5, 0), ws_value = -9999, ws_fill_value = -9999,
             ws_dtype = ''float64'', ws_yorigin = 16, ws_xorigin = -24, ws_origin = ''ul'',
             ws_cellsize = (-5, 5), ws_proj = ArgStr ''dst'' \<rparr>"
    by (simp add: warp_def Let_def linear_osr_call grid34_def ncells_def py_int_def
        py_round_def max4_def min4_def sqrt_25 sqrt_625)
  have c: "py_int (py_round (\<bar>Max {-12, -24, 0, -12} - Min {-12, -24, 0, -12 :: real}\<bar> / 5)) = 5"
    by (simp add: py_int_def py_round_def)
  from a b c show ?thesis by (intro conjI)
qed

text \<open>
  Claim C2.  When the four corners of the bounding box transform, the grid has at least
  one cell and the transformed lower left and upper right corners differ, \<^verbatim>\<open>_warp\<close>
  returns a dictionary whose cellsize in x is the Euclidean distance between the
  transformed lower left and upper right corners divided by
  \<open>sqrt (nrows\<^sup>2 + ncols\<^sup>2)\<close>, and whose cellsize in y is the negative of it.
\<close>

theorem warp_cellsize_is_diagonal_ratio:
  fixes be :: "('srs, 'tx) osr" and grid :: "('srs, 'v, 'd) geoarray" and p :: "'srs proj_arg"
  defines "tr \<equiv> Transformer_call be (Transformer_init be (proj grid) (Projection_init be p))"
  assumes ul: "tr (bbox_ymax grid) (bbox_xmin grid) = Inr (uly, ulx)"
      and lr: "tr (bbox_ymin grid) (bbox_xmax grid) = Inr (lry, lrx)"
      and ur: "tr (bbox_ymax grid) (bbox_xmax grid) = Inr (ury, urx)"
      and ll: "tr (bbox_ymin grid) (bbox_xmin grid) = Inr (lly, llx)"
      and cells: "nrows grid \<noteq> 0 \<or> ncols grid \<noteq> 0"
      and diag: "(lly, llx) \<noteq> (ury, urx)"
  shows "\<exists>out. warp be grid p = Inr out
           \<and> snd (ws_cellsize out) =
               sqrt ((lly - ury)\<^sup>2 + (llx - urx)\<^sup>2)
                 / sqrt (real ((nrows grid)\<^sup>2 + (ncols grid)\<^sup>2))
           \<and> fst (ws_cellsize out) = - snd (ws_cellsize out)"
  using warp_eval [OF ul [unfolded tr_def] lr [unfolded tr_def] ur [unfolded tr_def]
      ll [unfolded tr_def] cells diag]
  by simp

theorem warp_cellsize_is_diagonal_ratio_witness:
  "(\<exists>out. warp (linear_osr 1 0 0 1) grid34 (ArgStr ''dst'') = Inr out
      \<and> snd (ws_cellsize out) = 1 \<and> fst (ws_cellsize out) = - snd (ws_cellsize out))"
proof -
  let ?be = "linear_osr 1 0 0 1"
  let ?tr = "Transformer_call ?be
     (Transformer_init ?be (proj grid34) (Projection_init ?be (ArgStr ''dst'')))"
  have g: "proj grid34 = ''src''" by (simp add: grid34_def)
  have ul: "?tr (bbox_ymax grid34) (bbox_xmin grid34) = Inr (3, 0)"
    unfolding g linear_osr_call by (simp add: grid34_def)
  have lr: "?tr (bbox_ymin grid34) (bbox_xmax grid34) = Inr (0, 4)"
    unfolding g linear_osr_call by (simp add: grid34_def)
  have ur: "?tr (bbox_ymax grid34) (bbox_xmax grid34) = Inr (3, 4)"
    unfolding g linear_osr_call by (simp add: grid34_def)
  have ll: "?tr (bbox_ymin grid34) (bbox_xmin grid34) = Inr (0, 0)"
    unfolding g linear_osr_call by (simp add: grid34_def)
  have cells: "nrows grid34 \<noteq> 0 \<or> ncols grid34 \<noteq> 0" by (simp add: grid34_def)
  have diag: "((0::real), (0::real)) \<noteq> (3, 4)" by simp
  have n: "sqrt ((0 - 3)\<^sup>2 + (0 - 4)\<^sup>2) / sqrt (real ((nrows grid34)\<^sup>2 + (ncols grid34)\<^sup>2)) = 1"
    by (simp add: grid34_def sqrt_25)
  from warp_cellsize_is_diagonal_ratio [OF ul lr ur ll cells diag] show ?thesis
    unfolding n .
qed



section \<open>Properties of \_Projection and \_Transformer\<close>

text \<open>
  Claim C7.  The backend is assumed to behave as its Python binding does: a transformation
  built with an unset reference on either side has no handle, and giving it a point raises
  \<^verbatim>\<open>NotImplementedError\<close>.  Then, when the text of the source or of the target
  reference is empty, \<^verbatim>\<open>getReference\<close> returns \<^verbatim>\<open>None\<close> for it and transforming any
  point raises the \<^verbatim>\<open>AttributeError\<close> of line 123.  Every exception of the backend
  that is not a \<^verbatim>\<open>NotImplementedError\<close> passes unchanged; in particular the
  \<^verbatim>\<open>RuntimeError\<close> of a point that cannot be transformed stays a
  \<^verbatim>\<open>RuntimeError\<close> and differs from the error for an unset reference.
\<close>

theorem unset_reference_raises_AttributeError:
  fixes be :: "('srs, 'tx) osr"
  assumes no_handle: "\<And>s t x y. s = None \<or> t = None \<Longrightarrow>
             \<exists>msg. TransformPoint be (CoordinateTransformation be s t) x y
                     = Inl (NotImplementedError msg)"
      and unset: "srs_str be sproj = [] \<or> srs_str be tproj = []"
  shows "Transformer_call be (Transformer_init be sproj tproj) y x
           = Inl (AttributeError ''Projections not correct or given!'')
       \<and> (TransformPoint be tx x' y' = Inl e \<and> (\<forall>n. e \<noteq> NotImplementedError n)
            \<longrightarrow> Transformer_call be tx y' x' = Inl e)
       \<and> (TransformPoint be tx x' y' = Inl (RuntimeError m)
            \<longrightarrow> Transformer_call be tx y' x' = Inl (RuntimeError m)
              \<and> Transformer_call be tx y' x'
                  \<noteq> Transformer_call be (Transformer_init be sproj tproj) y x)"
proof -
  from unset have "getReference be sproj = None \<or> getReference be tproj = None"
    by (auto simp: getReference_def)
  from no_handle [OF this] obtain msg where
    "TransformPoint be (Transformer_init be sproj tproj) x y = Inl (NotImplementedError msg)"
    unfolding Transformer_init_def by blast
  then have a: "Transformer_call be (Transformer_init be sproj tproj) y x
           = Inl (AttributeError ''Projections not correct or given!'')"
    by (simp add: Transformer_call_def)
  have b: "TransformPoint be tx x' y' = Inl e \<and> (\<forall>n. e \<noteq> NotImplementedError n)
            \<longrightarrow> Transformer_call be tx y' x' = Inl e"
    by (cases e) (auto simp: Transformer_call_def)
  have c: "TransformPoint be tx x' y' = Inl (RuntimeError m)
            \<longrightarrow> Transformer_call be tx y' x' = Inl (RuntimeError m)
              \<and> Transformer_call be tx y' x'
                  \<noteq> Transformer_call be (Transformer_init be sproj tproj) y x"
    unfolding a by (auto simp: Transformer_call_def)
  from a b c show ?thesis by (intro conjI)
qed

theorem unset_reference_raises_AttributeError_witness:
  "srs_str failing_osr [] = []
   \<and> Transformer_call failing_osr (Transformer_init failing_osr [] ''dst'') 1 2
       = Inl (AttributeError ''Projections not correct or given!'')
   \<and> TransformPoint failing_osr (Transformer_init failing_osr ''src'' ''dst'') 2 1
       = Inl (RuntimeError ''tolerance condition error'')
   \<and> Transformer_call failing_osr (Transformer_init failing_osr ''src'' ''dst'') 1 2
       = Inl (RuntimeError ''tolerance condition error'')
   \<and> Transformer_call failing_osr (Transformer_init failing_osr ''src'' ''dst'') 1 2
       \<noteq> Transformer_call failing_osr (Transformer_init failing_osr [] ''dst'') 1 2"
proof -
  have h: "\<And>s t x y. s = None \<or> t = None \<Longrightarrow>
             \<exists>msg. TransformPoint failing_osr (CoordinateTransformation failing_osr s t) x y
                     = Inl (NotImplementedError msg)"
    by (auto simp: failing_osr_def linear_osr_def)
  have u: "srs_str failing_osr [] = [] \<or> srs_str failing_osr ''dst'' = []"
    by (simp add: failing_osr_def linear_osr_def)
  have r: "TransformPoint failing_osr (Transformer_init failing_osr ''src'' ''dst'') 2 1
       = Inl (RuntimeError ''tolerance condition error'')"
    by (simp add: failing_osr_def linear_osr_def Transformer_init_def getReference_def)
  have s: "srs_str failing_osr [] = []"
    by (simp add: failing_osr_def linear_osr_def)
  from unset_reference_raises_AttributeError [OF h u,
      where tx = "Transformer_init failing_osr ''src'' ''dst''" and x' = 2 and y' = 1
        and y = 1 and x = 2 and m = "''tolerance condition error''"] r s
  show ?thesis by simp
qed

lemma re_split_nonempty: "re_split s \<noteq> []"
  by (induction s) (auto split: list.splits)
















section \<open>Properties of the grids\<close>

text \<open>
  Claim C8.  When the file opens and the x and y cellsizes of its geotransform differ in
  magnitude, the constructor of \<^verbatim>\<open>_GdalGrid\<close> raises the \<^verbatim>\<open>NotImplementedError\<close> of
  line 187, whatever the other arguments are; the result is the exception, so no grid
  comes into being.
\<close>

theorem diverging_cellsizes_are_rejected:
  fixes fs :: "string \<Rightarrow> 'a dataset option"
  assumes opened: "fs fname = Some fobj"
      and transform: "GeoTransform fobj = (t0, x_cellsize, t2, t3, t4, y_cellsize)"
      and diverge: "\<bar>x_cellsize\<bar> \<noteq> \<bar>y_cellsize\<bar>"
  shows "GdalGrid_init fs np_type fname proj_params dtype' =
           Inl (NotImplementedError
                  ''Diverging cellsizes in x and y direction are not allowed yet!'')"
proof -
  from diverge have "cellsize_of x_cellsize y_cellsize = Inl (NotImplementedError
                  ''Diverging cellsizes in x and y direction are not allowed yet!'')"
    by (simp add: cellsize_of_def)
  then show ?thesis
    by (simp add: GdalGrid_init_def gdal_open_def opened transform Let_def)
qed

theorem diverging_cellsizes_are_rejected_witness:
  "one_file wide_file ''a.tif'' = Some wide_file
   \<and> GeoTransform wide_file = (0, 2, 0, 2, 0, -1)
   \<and> \<bar>2 :: real\<bar> \<noteq> \<bar>- 1\<bar>
   \<and> GdalGrid_init (one_file wide_file) int_types ''a.tif'' [] [] =
           Inl (NotImplementedError
                  ''Diverging cellsizes in x and y direction are not allowed yet!'')"
proof -
  have a: "one_file wide_file ''a.tif'' = Some wide_file" by (simp add: one_file_def)
  have g: "GeoTransform wide_file = (0, 2, 0, 2, 0, -1)" by (simp add: wide_file_def)
  have b: "\<bar>2 :: real\<bar> \<noteq> \<bar>- 1\<bar>" by simp
  from diverging_cellsizes_are_rejected
    [where fs = "one_file wide_file" and fname = "''a.tif''", OF a g b] a g b
  show ?thesis by blast
qed

text \<open>A file with square cells is read; the grid is not loaded yet.\<close>

lemma square_file_is_read:
  "GdalGrid_init (one_file square_file) int_types ''a.tif'' [] [] =
     Inr \<lparr> gg_data = None, gg_nodata_value = 0, gg_dtype = (\<lambda>i. i),
           gg_nbands = 1, gg_nrows = 2, gg_ncols = 2,
           gg_xllcorner = 0, gg_yllcorner = 0, gg_cellsize = 1,
           gg_proj_params = [(''proj'', ''longlat'')],
           gg_source = \<lparr> shape = [2, 2], cells = [0, 5, 7, 0] \<rparr> \<rparr>"
  by (simp add: GdalGrid_init_def gdal_open_def one_file_def square_file_def wide_file_def
      Let_def cellsize_of_def yllcorner_of_def proj4Params_def is_sep_def GeoGridBase_init_def
      int_types_def consistentTypes_def)

text \<open>
  A mask that was computed from the array itself has the shape of the array, and the
  assignment through it replaces exactly the cells that the mask marks.
\<close>

lemma flags_of_cells:
  "map (\<lambda>(f, c). if f then v else c) (zip (concat (map (replicate 1) (map P cs))) cs)
     = map (\<lambda>c. if P c then v else c) cs"
  by (induction cs) simp_all

lemma mask_assign_same_shape:
  "mask_assign d (eq_mask d x) v =
     Inr (d\<lparr>cells := map (\<lambda>c. if c = x then v else c) (cells d)\<rparr>)"
proof -
  have s: "take (length (shape (eq_mask d x))) (shape d) = shape (eq_mask d x)"
    by (simp add: eq_mask_def astype_def)
  have b: "prod_list (drop (length (shape (eq_mask d x))) (shape d)) = 1"
    by (simp add: eq_mask_def astype_def)
  have c: "cells (eq_mask d x) = map (\<lambda>c. c = x) (cells d)"
    by (simp add: eq_mask_def astype_def)
  show ?thesis
    unfolding mask_assign_def Let_def s b c by (simp only: flags_of_cells refl if_True)
qed

text \<open>
  On a loaded grid whose data keep their first axis when squeezed (more than one band, or
  one band with more than one row), setting the nodata value replaces every cell equal to
  the old nodata value by the converted new value, leaves every other cell as it was and
  stores the converted new value.
\<close>

lemma setNodataValue_rewrites_cells:
  assumes loaded: "gg_data g = Some d"
      and axis: "shape d = n # rest" "n \<noteq> 1"
  shows "setNodataValue g v =
     Inr (g\<lparr> gg_data := Some (d\<lparr>cells :=
                 map (\<lambda>c. if c = gg_nodata_value g then gg_dtype g v else c) (cells d)\<rparr>),
             gg_nodata_value := gg_dtype g v \<rparr>)"
proof -
  have sq: "squeeze d = d" using axis by (simp add: squeeze_def)
  have same: "g\<lparr>gg_data := Some d\<rparr> = g" using loaded [symmetric] by simp
  have get: "getitem_all g = Inr (g, d)"
    using axis by (simp add: getitem_all_def loaded sq same)
  have set: "setitem_mask g (eq_mask d (gg_nodata_value g)) (gg_dtype g v) =
     Inr (g\<lparr>gg_data := Some (d\<lparr>cells :=
                 map (\<lambda>c. if c = gg_nodata_value g then gg_dtype g v else c) (cells d)\<rparr>)\<rparr>)"
    by (simp add: setitem_mask_def loaded mask_assign_same_shape)
  show ?thesis
    by (simp add: setNodataValue_def get set)
qed

text \<open>
  Claim C4, on a raster of one band and one row.  The file \<open>row_file\<close> is read into
  a grid, and the first access loads the data with the shape \<open>[1, 2]\<close> and returns
  the squeezed view of shape \<open>[2]\<close>.  The setter compares the squeezed view with the
  nodata value, which gives a mask of shape \<open>[2]\<close>, and assigns through that mask into
  the data of shape \<open>[1, 2]\<close>: the shapes do not match and the assignment raises
  \<^verbatim>\<open>IndexError\<close>.  No cell is rewritten and the nodata value is not updated.
\<close>

theorem setNodataValue_fails_on_single_row:
  "GdalGrid_init (one_file row_file) int_types ''a.tif'' [] [] =
     Inr \<lparr> gg_data = None, gg_nodata_value = 0, gg_dtype = (\<lambda>i. i),
           gg_nbands = 1, gg_nrows = 1, gg_ncols = 2,
           gg_xllcorner = 0, gg_yllcorner = 0, gg_cellsize = 1,
           gg_proj_params = [(''proj'', ''longlat'')],
           gg_source = \<lparr> shape = [1, 2], cells = [0, 5] \<rparr> \<rparr>
   \<and> getitem_all
       \<lparr> gg_data = None, gg_nodata_value = 0, gg_dtype = (\<lambda>i. i),
         gg_nbands = 1, gg_nrows = 1, gg_ncols = 2,
         gg_xllcorner = 0, gg_yllcorner = 0, gg_cellsize = 1,
         gg_proj_params = [(''proj'', ''longlat'')],
         gg_source = \<lparr> shape = [1, 2], cells = [0, 5 :: int] \<rparr> \<rparr> =
     Inr (\<lparr> gg_data = Some \<lparr> shape = [1, 2], cells = [0, 5] \<rparr>,
             gg_nodata_value = 0, gg_dtype = (\<lambda>i. i),
             gg_nbands = 1, gg_nrows = 1, gg_ncols = 2,
             gg_xllcorner = 0, gg_yllcorner = 0, gg_cellsize = 1,
             gg_proj_params = [(''proj'', ''longlat'')],
             gg_source = \<lparr> shape = [1, 2], cells = [0, 5] \<rparr> \<rparr>,
          \<lparr> shape = [2], cells = [0, 5] \<rparr>)
   \<and> setNodataValue
       \<lparr> gg_data = Some \<lparr> shape = [1, 2], cells = [0, 5 :: int] \<rparr>,
         gg_nodata_value = 0, gg_dtype = (\<lambda>i. i),
         gg_nbands = 1, gg_nrows = 1, gg_ncols = 2,
         gg_xllcorner = 0, gg_yllcorner = 0, gg_cellsize = 1,
         gg_proj_params = [(''proj'', ''longlat'')],
         gg_source = \<lparr> shape = [1, 2], cells = [0, 5] \<rparr> \<rparr> 9 =
     Inl IndexError"
proof -
  have a: "GdalGrid_init (one_file row_file) int_types ''a.tif'' [] [] =
     Inr \<lparr> gg_data = None, gg_nodata_value = 0, gg_dtype = (\<lambda>i. i),
           gg_nbands = 1, gg_nrows = 1, gg_ncols = 2,
           gg_xllcorner = 0, gg_yllcorner = 0, gg_cellsize = 1,
           gg_proj_params = [(''proj'', ''longlat'')],
           gg_source = \<lparr> shape = [1, 2], cells = [0, 5] \<rparr> \<rparr>"
    by (simp add: GdalGrid_init_def gdal_open_def one_file_def row_file_def
      Let_def cellsize_of_def yllcorner_of_def proj4Params_def is_sep_def GeoGridBase_init_def
      int_types_def consistentTypes_def)
  have b: "getitem_all
       \<lparr> gg_data = None, gg_nodata_value = 0, gg_dtype = (\<lambda>i. i),
         gg_nbands = 1, gg_nrows = 1, gg_ncols = 2,
         gg_xllcorner = 0, gg_yllcorner = 0, gg_cellsize = 1,
         gg_proj_params = [(''proj'', ''longlat'')],
         gg_source = \<lparr> shape = [1, 2], cells = [0, 5 :: int] \<rparr> \<rparr> =
     Inr (\<lparr> gg_data = Some \<lparr> shape = [1, 2], cells = [0, 5] \<rparr>,
             gg_nodata_value = 0, gg_dtype = (\<lambda>i. i),
             gg_nbands = 1, gg_nrows = 1, gg_ncols = 2,
             gg_xllcorner = 0, gg_yllcorner = 0, gg_cellsize = 1,
             gg_proj_params = [(''proj'', ''longlat'')],
             gg_source = \<lparr> shape = [1, 2], cells = [0, 5] \<rparr> \<rparr>,
          \<lparr> shape = [2], cells = [0, 5] \<rparr>)"
    by (simp add: getitem_all_def astype_def squeeze_def Let_def)
  have c: "setNodataValue
       \<lparr> gg_data = Some \<lparr> shape = [1, 2], cells = [0, 5 :: int] \<rparr>,
         gg_nodata_value = 0, gg_dtype = (\<lambda>i. i),
         gg_nbands = 1, gg_nrows = 1, gg_ncols = 2,
         gg_xllcorner = 0, gg_yllcorner = 0, gg_cellsize = 1,
         gg_proj_params = [(''proj'', ''longlat'')],
         gg_source = \<lparr> shape = [1, 2], cells = [0, 5] \<rparr> \<rparr> 9 =
     Inl IndexError"
    by (simp add: setNodataValue_def getitem_all_def squeeze_def Let_def setitem_mask_def
        mask_assign_def eq_mask_def astype_def)
  from a b c show ?thesis by (intro conjI)
qed

text \<open>The same call on the loaded grid of two rows and two columns.\<close>

lemma setNodataValue_square_file:
  "setNodataValue
       \<lparr> gg_data = Some \<lparr> shape = [2, 2], cells = [0, 5, 7, 0 :: int] \<rparr>,
         gg_nodata_value = 0, gg_dtype = (\<lambda>i. i),
         gg_nbands = 1, gg_nrows = 2, gg_ncols = 2,
         gg_xllcorner = 0, gg_yllcorner = 0, gg_cellsize = 1,
         gg_proj_params = [(''proj'', ''longlat'')],
         gg_source = \<lparr> shape = [2, 2], cells = [0, 5, 7, 0] \<rparr> \<rparr> 9 =
     Inr \<lparr> gg_data = Some \<lparr> shape = [2, 2], cells = [9, 5, 7, 9 :: int] \<rparr>,
         gg_nodata_value = 9, gg_dtype = (\<lambda>i. i),
         gg_nbands = 1, gg_nrows = 2, gg_ncols = 2,
         gg_xllcorner = 0, gg_yllcorner = 0, gg_cellsize = 1,
         gg_proj_params = [(''proj'', ''longlat'')],
         gg_source = \<lparr> shape = [2, 2], cells = [0, 5, 7, 0] \<rparr> \<rparr>"
  by (simp add: setNodataValue_def getitem_all_def squeeze_def Let_def setitem_mask_def
        mask_assign_def eq_mask_def astype_def)

section \<open>Properties of array\<close>

lemma py_or_falsy: "\<not> truthy a \<Longrightarrow> py_or a b = b"
  by (simp add: py_or_def)

lemma py_eq_refl: "py_eq a a"
  by (simp add: py_eq_def split: option.splits)

lemma falsy_number_eq_zero:
  assumes "py_num v \<noteq> None" "\<not> truthy v"
  shows "py_eq (PInt 0) v"
  using assms by (cases v) (auto simp: py_eq_def)

text \<open>
  Claim C9.  Let \<open>data\<close> be a \<^verbatim>\<open>GeoArray\<close> whose \<open>yorigin\<close> and \<open>xorigin\<close>
  are numbers, whose \<open>origin\<close> is one of the four corners and whose \<open>cellsize\<close> is
  a pair.  Then each of the eight keywords that is passed with a false value is replaced
  by the attribute of \<open>data\<close>: the value handed on is that attribute, and for
  \<open>yorigin\<close> and \<open>xorigin\<close> it is equal to it as a number (an attribute \<open>0.0\<close>
  is handed on as \<open>0\<close>).  In particular \<open>yorigin = 0\<close> with a non-zero attribute
  gives the attribute, not 0.
\<close>

theorem array_replaces_falsy_keywords:
  assumes yorigin_number: "py_num (kw_yorigin g) \<noteq> None"
      and xorigin_number: "py_num (kw_xorigin g) \<noteq> None"
      and origin_corner: "kw_origin g \<in> {PStr ''ul'', PStr ''ur'', PStr ''ll'', PStr ''lr''}"
      and cellsize_pair: "kw_cellsize g = PTuple [dy, dx]"
  shows "(\<not> truthy (kw_dtype kw) \<longrightarrow> kw_dtype (array (IsGeoArray g) kw) = kw_dtype g)
       \<and> (\<not> truthy (kw_yorigin kw) \<longrightarrow>
             py_eq (kw_yorigin (array (IsGeoArray g) kw)) (kw_yorigin g))
       \<and> (\<not> truthy (kw_xorigin kw) \<longrightarrow>
             py_eq (kw_xorigin (array (IsGeoArray g) kw)) (kw_xorigin g))
       \<and> (\<not> truthy (kw_origin kw) \<longrightarrow> kw_origin (array (IsGeoArray g) kw) = kw_origin g)
       \<and> (\<not> truthy (kw_fill_value kw) \<longrightarrow>
             kw_fill_value (array (IsGeoArray g) kw) = kw_fill_value g)
       \<and> (\<not> truthy (kw_cellsize kw) \<longrightarrow>
             kw_cellsize (array (IsGeoArray g) kw) = kw_cellsize g)
       \<and> (\<not> truthy (kw_proj kw) \<longrightarrow> kw_proj (array (IsGeoArray g) kw) = kw_proj g)
       \<and> (\<not> truthy (kw_mode kw) \<longrightarrow> kw_mode (array (IsGeoArray g) kw) = kw_mode g)
       \<and> (kw_yorigin kw = PInt 0 \<and> truthy (kw_yorigin g) \<longrightarrow>
             kw_yorigin (array (IsGeoArray g) kw) = kw_yorigin g)"
proof -
  have y: "py_eq (py_or (kw_yorigin g) (PInt 0)) (kw_yorigin g)"
    using falsy_number_eq_zero [OF yorigin_number] by (auto simp: py_or_def py_eq_refl)
  have x: "py_eq (py_or (kw_xorigin g) (PInt 0)) (kw_xorigin g)"
    using falsy_number_eq_zero [OF xorigin_number] by (auto simp: py_or_def py_eq_refl)
  have o: "py_or (kw_origin g) (PStr ''ul'') = kw_origin g"
    using origin_corner by (auto simp: py_or_def)
  have c: "py_or (kw_cellsize g) (PTuple [PInt 1, PInt 1]) = kw_cellsize g"
    using cellsize_pair by (simp add: py_or_def)
  show ?thesis
    using y x o c by (simp add: array_def Let_def py_or_falsy) (simp add: py_or_def)
qed

theorem array_replaces_falsy_keywords_witness:
  "kw_yorigin (array (IsGeoArray example_geoarray) (no_keywords\<lparr>kw_yorigin := PInt 0\<rparr>))
     = PFloat 10
   \<and> array (IsGeoArray example_geoarray) (no_keywords\<lparr>kw_yorigin := PInt 0\<rparr>)
     = example_geoarray\<lparr>kw_xorigin := PInt 0\<rparr>
   \<and> py_eq (PInt 0) (kw_xorigin example_geoarray)"
proof -
  let ?kw = "no_keywords\<lparr>kw_yorigin := PInt 0\<rparr>"
  have a: "py_num (kw_yorigin example_geoarray) \<noteq> None"
       "py_num (kw_xorigin example_geoarray) \<noteq> None"
    by (simp_all add: example_geoarray_def)
  have b: "kw_origin example_geoarray \<in> {PStr ''ul'', PStr ''ur'', PStr ''ll'', PStr ''lr''}"
    by (simp add: example_geoarray_def)
  have c: "kw_cellsize example_geoarray = PTuple [PFloat (-1), PFloat 1]"
    by (simp add: example_geoarray_def)
  have f: "\<not> truthy (kw_dtype ?kw)" "\<not> truthy (kw_yorigin ?kw)" "\<not> truthy (kw_xorigin ?kw)"
    "\<not> truthy (kw_origin ?kw)" "\<not> truthy (kw_fill_value ?kw)" "\<not> truthy (kw_cellsize ?kw)"
    "\<not> truthy (kw_proj ?kw)" "\<not> truthy (kw_mode ?kw)"
    by (simp_all add: no_keywords_def)
  have t: "kw_yorigin ?kw = PInt 0 \<and> truthy (kw_yorigin example_geoarray)"
    by (simp add: example_geoarray_def)
  note th = array_replaces_falsy_keywords [OF a b c, of ?kw]
  from th t have y: "kw_yorigin (array (IsGeoArray example_geoarray) ?kw) = PFloat 10"
    by (simp add: example_geoarray_def)
  have e: "array (IsGeoArray example_geoarray) ?kw = example_geoarray\<lparr>kw_xorigin := PInt 0\<rparr>"
    by (simp add: array_def Let_def py_or_def no_keywords_def example_geoarray_def)
  have z: "py_eq (PInt 0) (kw_xorigin example_geoarray)"
    by (simp add: py_eq_def example_geoarray_def)
  from y e z show ?thesis by simp
qed

end
